theory Spec2Isabelle
  imports Complex_Main "HOL-Library.Sublist"
begin

section \<open>JavaScript values\<close>

text \<open>
  A JavaScript string is a sequence of UTF-16 code units; a code unit is modelled as a
  natural number. The Korean literals of \<^verbatim>\<open>carepartner-helper.ts\<close> are
  written by their code units (every Hangul syllable is one unit), their ASCII runs through
  \<open>ascii\<close>.
\<close>

type_synonym jsstring = "nat list"

definition ascii :: "string \<Rightarrow> jsstring" where
  "ascii s = map of_char s"

text \<open>
  The values \<^verbatim>\<open>data: any\<close> can hold: what \<^verbatim>\<open>response.json()\<close>
  parses, and \<^verbatim>\<open>undefined\<close>, which a property read yields. A number is the
  rational it denotes. An object is the association list of its own properties (the first
  binding of a key is the property).
\<close>

datatype jsval =
    JUndefined
  | JNull
  | JBool bool
  | JNum rat
  | JStr jsstring
  | JArr "jsval list"
  | JObj "(jsstring \<times> jsval) list"

text \<open>
  What a \<^verbatim>\<open>throw\<close> or a rejected promise carries
  (\<^verbatim>\<open>error: unknown\<close>): an instance of \<^verbatim>\<open>Error\<close> with its
  \<^verbatim>\<open>name\<close> and \<^verbatim>\<open>message\<close>, or any other value.
\<close>

datatype thrown =
    is_Error: JsError (err_name: jsstring) (err_message: jsstring)
  | NonError jsval

text \<open>\<^verbatim>\<open>new Error(msg)\<close>: the name of a plain error is \<^verbatim>\<open>"Error"\<close>.\<close>

definition new_Error :: "jsstring \<Rightarrow> thrown" where
  "new_Error msg = JsError (ascii ''Error'') msg"

text \<open>
  A non-negative integer in a template literal (\<^verbatim>\<open>${timeout}\<close>,
  \<^verbatim>\<open>${response.status}\<close>): its decimal digits.
\<close>

fun show_nat :: "nat \<Rightarrow> jsstring" where
  "show_nat n = (if n < 10 then [48 + n] else show_nat (n div 10) @ [48 + n mod 10])"

declare show_nat.simps [simp del]

text \<open>Truthiness, as \<^verbatim>\<open>!v\<close> tests it.\<close>

fun truthy :: "jsval \<Rightarrow> bool" where
  "truthy JUndefined = False"
| "truthy JNull = False"
| "truthy (JBool b) = b"
| "truthy (JNum q) = (q \<noteq> 0)"
| "truthy (JStr s) = (s \<noteq> [])"
| "truthy (JArr xs) = True"
| "truthy (JObj ps) = True"

fun nullish :: "jsval \<Rightarrow> bool" where
  "nullish JUndefined = True"
| "nullish JNull = True"
| "nullish v = False"

text \<open>
  The message of the \<^verbatim>\<open>TypeError\<close> that reading property \<open>k\<close> of
  \<^verbatim>\<open>null\<close> or \<^verbatim>\<open>undefined\<close> throws (V8's wording).
\<close>

definition cannot_read :: "jsstring \<Rightarrow> jsstring \<Rightarrow> thrown" where
  "cannot_read what k =
     JsError (ascii ''TypeError'')
       (ascii ''Cannot read properties of '' @ what @ ascii '' (reading '' @ [0x27] @ k @ [0x27]
          @ ascii '')'')"

text \<open>
  \<^verbatim>\<open>v.k\<close> for a name \<open>k\<close> that no built-in prototype defines
  (\<^verbatim>\<open>choices\<close>, \<^verbatim>\<open>message\<close>, \<^verbatim>\<open>content\<close>):
  a \<^verbatim>\<open>TypeError\<close> on \<^verbatim>\<open>null\<close> and
  \<^verbatim>\<open>undefined\<close>, an object's own property, and
  \<^verbatim>\<open>undefined\<close> elsewhere.
\<close>

fun get_member :: "jsval \<Rightarrow> jsstring \<Rightarrow> thrown + jsval" where
  "get_member JUndefined k = Inl (cannot_read (ascii ''undefined'') k)"
| "get_member JNull k = Inl (cannot_read (ascii ''null'') k)"
| "get_member (JObj ps) k = Inr (case map_of ps k of None \<Rightarrow> JUndefined | Some v \<Rightarrow> v)"
| "get_member v k = Inr JUndefined"

text \<open>
  \<^verbatim>\<open>v[0]\<close>: the first element of an array, the first code unit of a string,
  the property \<^verbatim>\<open>"0"\<close> of an object.
\<close>

fun get_index0 :: "jsval \<Rightarrow> thrown + jsval" where
  "get_index0 JUndefined = Inl (cannot_read (ascii ''undefined'') (ascii ''0''))"
| "get_index0 JNull = Inl (cannot_read (ascii ''null'') (ascii ''0''))"
| "get_index0 (JArr []) = Inr JUndefined"
| "get_index0 (JArr (x # xs)) = Inr x"
| "get_index0 (JStr []) = Inr JUndefined"
| "get_index0 (JStr (c # cs)) = Inr (JStr [c])"
| "get_index0 (JObj ps) = Inr (case map_of ps (ascii ''0'') of None \<Rightarrow> JUndefined | Some v \<Rightarrow> v)"
| "get_index0 v = Inr JUndefined"

text \<open>
  \<^verbatim>\<open>data.choices?.[0]?.message?.content\<close>: the first read is a plain member
  access, every later link is skipped (the whole chain is \<^verbatim>\<open>undefined\<close>)
  when the value before it is \<^verbatim>\<open>null\<close> or \<^verbatim>\<open>undefined\<close>.
\<close>

definition assistant_message :: "jsval \<Rightarrow> thrown + jsval" where
  "assistant_message data =
     (case get_member data (ascii ''choices'') of
        Inl e \<Rightarrow> Inl e
      | Inr choices \<Rightarrow>
          if nullish choices then Inr JUndefined
          else (case get_index0 choices of
                  Inl e \<Rightarrow> Inl e
                | Inr first \<Rightarrow>
                    if nullish first then Inr JUndefined
                    else (case get_member first (ascii ''message'') of
                            Inl e \<Rightarrow> Inl e
                          | Inr message \<Rightarrow>
                              if nullish message then Inr JUndefined
                              else get_member message (ascii ''content''))))"

section \<open>Timers and the console\<close>

datatype console_arg = LoggedValue jsval | LoggedFault thrown

datatype event =
    SetTimeout nat nat
  | ClearTimeout nat
  | TimerFired nat
  | AbortRequested
  | ConsoleWarn jsstring
  | ConsoleError jsstring console_arg

text \<open>
  The part of the process the handler acts on: the timers that are scheduled and have
  not fired (by id), the next timer id, and the trace of timer and console calls.
\<close>

record io =
  timers :: "nat list"
  next_timer :: nat
  trace :: "event list"

definition setTimeout :: "nat \<Rightarrow> io \<Rightarrow> nat \<times> io" where
  "setTimeout ms s =
     (next_timer s,
      s\<lparr>timers := timers s @ [next_timer s],
        next_timer := Suc (next_timer s),
        trace := trace s @ [SetTimeout (next_timer s) ms]\<rparr>)"

definition clearTimeout :: "nat \<Rightarrow> io \<Rightarrow> io" where
  "clearTimeout i s =
     s\<lparr>timers := removeAll i (timers s), trace := trace s @ [ClearTimeout i]\<rparr>"

text \<open>
  A timer that fires leaves the scheduled set and runs its callback, here
  \<^verbatim>\<open>() => controller.abort()\<close>.
\<close>

definition timer_fires :: "nat \<Rightarrow> io \<Rightarrow> io" where
  "timer_fires i s =
     s\<lparr>timers := removeAll i (timers s), trace := trace s @ [TimerFired i, AbortRequested]\<rparr>"

definition console_warn :: "jsstring \<Rightarrow> io \<Rightarrow> io" where
  "console_warn msg s = s\<lparr>trace := trace s @ [ConsoleWarn msg]\<rparr>"

definition console_error :: "jsstring \<Rightarrow> console_arg \<Rightarrow> io \<Rightarrow> io" where
  "console_error label arg s = s\<lparr>trace := trace s @ [ConsoleError label arg]\<rparr>"

section \<open>The HTTP transport\<close>

text \<open>
  The second argument of \<^verbatim>\<open>fetch\<close>. The body is the value handed to
  \<^verbatim>\<open>JSON.stringify\<close>; the request carries its serialisation.
\<close>

record options =
  http_method :: jsstring
  headers :: "(jsstring \<times> jsstring) list"
  body :: jsval

text \<open>
  What the handler reads of a response: \<^verbatim>\<open>ok\<close>, \<^verbatim>\<open>status\<close>,
  \<^verbatim>\<open>statusText\<close>, and what awaiting \<^verbatim>\<open>response.text()\<close> and
  \<^verbatim>\<open>response.json()\<close> gives (either may reject).
\<close>

record response =
  ok :: bool
  status :: nat
  statusText :: jsstring
  read_text :: "thrown + jsstring"
  read_json :: "thrown + jsval"

text \<open>
  Modelled from the spec: \<^verbatim>\<open>fetch\<close> is the node-fetch package, which is not
  part of the source. The request races a deadline timer (spec 4.2, step 2): the promise
  is fulfilled or rejected before the timer fires, or the timer fires first and "the
  underlying transport must observe this signal and abort", which rejects the promise with
  the transport's \<^verbatim>\<open>AbortError\<close> (its message is the transport's).
\<close>

datatype fetch_outcome =
    Fulfilled response
  | Rejected thrown
  | DeadlineFirst jsstring

type_synonym transport = "jsstring \<Rightarrow> options \<Rightarrow> fetch_outcome"

definition await_fetch :: "fetch_outcome \<Rightarrow> nat \<Rightarrow> io \<Rightarrow> (thrown + response) \<times> io" where
  "await_fetch outcome timeoutId s =
     (case outcome of
        Fulfilled r \<Rightarrow> (Inr r, s)
      | Rejected e \<Rightarrow> (Inl e, s)
      | DeadlineFirst m \<Rightarrow> (Inl (JsError (ascii ''AbortError'') m), timer_fires timeoutId s))"

section \<open>fetchWithTimeout\<close>

definition TIMEOUT_MS :: nat where
  "TIMEOUT_MS = 25000"

definition timeout_message :: "nat \<Rightarrow> jsstring" where
  "timeout_message timeout =
     [0xC694, 0xCCAD] @ ascii '' '' @ [0xC2DC, 0xAC04, 0xC774] @ ascii '' ''
       @ [0xCD08, 0xACFC, 0xB418, 0xC5C8, 0xC2B5, 0xB2C8, 0xB2E4] @ ascii ''. (''
       @ show_nat timeout @ ascii ''ms)''"

text \<open>\<^verbatim>\<open>error instanceof Error && error.name === "AbortError"\<close>\<close>

definition is_abort :: "thrown \<Rightarrow> bool" where
  "is_abort error = (is_Error error \<and> err_name error = ascii ''AbortError'')"

definition fetchWithTimeout ::
  "transport \<Rightarrow> jsstring \<Rightarrow> options \<Rightarrow> nat \<Rightarrow> io \<Rightarrow> (thrown + response) \<times> io" where
  "fetchWithTimeout fetch url opts timeout s =
     (let (timeoutId, s1) = setTimeout timeout s in
      case await_fetch (fetch url opts) timeoutId s1 of
        (Inr response, s2) \<Rightarrow> (Inr response, clearTimeout timeoutId s2)
      | (Inl error, s2) \<Rightarrow>
          (let s3 = clearTimeout timeoutId s2 in
           if is_abort error then (Inl (new_Error (timeout_message timeout)), s3)
           else (Inl error, s3)))"

section \<open>The handler of search_care_jobs\<close>

record content_item =
  item_type :: jsstring
  item_text :: jsval

record tool_result =
  content :: "content_item list"

record args =
  location :: jsstring

text \<open>
  \<^verbatim>\<open>openRouterApiKey\<close> is \<^verbatim>\<open>string | undefined\<close>; as a value, and
  inside a template literal.
\<close>

definition key_value :: "jsstring option \<Rightarrow> jsval" where
  "key_value k = (case k of None \<Rightarrow> JUndefined | Some s \<Rightarrow> JStr s)"

definition key_text :: "jsstring option \<Rightarrow> jsstring" where
  "key_text k = (case k of None \<Rightarrow> ascii ''undefined'' | Some s \<Rightarrow> s)"

definition openRouterUrl :: jsstring where
  "openRouterUrl = ascii ''https://openrouter.ai/api/v1/chat/completions''"

definition system_prompt :: jsstring where
  "system_prompt =
     ascii ''You are an expert in searching and analyzing care job information in Korea. Find care partner job listings near the given address in ''
       @ [0x27] @ ascii ''https://carepartner.kr'' @ [0x27]
       @ ascii '' and provide them in a structured format. Each job listing must follow this format:''
       @ [0xA, 0xA]
       @ ascii ''1. Job Title'' @ [0xA]
       @ ascii ''2. Work Location'' @ [0xA]
       @ ascii ''3. Working Hours'' @ [0xA]
       @ ascii ''4. Salary Conditions'' @ [0xA]
       @ ascii ''5. Job URL in '' @ [0x27] @ ascii ''https://carepartner.kr'' @ [0x27]
       @ ascii '' (must be included)'' @ [0xA, 0xA]
       @ ascii ''If URL is not available, display '' @ [0x27] @ ascii ''URL not available'' @ [0x27]
       @ ascii ''. Keep the response simple and clear.''"

definition user_prompt :: "jsstring \<Rightarrow> jsstring" where
  "user_prompt loc =
     ascii ''Find 3 care partner job listings near '' @ [0x22] @ loc @ [0x22]
       @ ascii '' in '' @ [0x27] @ ascii ''https://carepartner.kr'' @ [0x27]
       @ ascii ''. Provide the following information for each job listing: 1) Job Title 2) Work Location 3) Working Hours 4) Salary Conditions 5) Job URL''"

definition request_headers :: "jsstring option \<Rightarrow> (jsstring \<times> jsstring) list" where
  "request_headers openRouterApiKey =
     [(ascii ''Authorization'', ascii ''Bearer '' @ key_text openRouterApiKey),
      (ascii ''Content-Type'', ascii ''application/json'')]"

definition request_body :: "jsstring \<Rightarrow> jsval" where
  "request_body loc =
     JObj
       [(ascii ''model'', JStr (ascii ''perplexity/sonar-pro'')),
        (ascii ''messages'',
           JArr
             [JObj [(ascii ''role'', JStr (ascii ''system'')),
                    (ascii ''content'', JStr system_prompt)],
              JObj [(ascii ''role'', JStr (ascii ''user'')),
                    (ascii ''content'', JStr (user_prompt loc))]]),
        (ascii ''max_tokens'', JNum 500),
        (ascii ''temperature'', JNum (7 / 10))]"

definition request_options :: "jsstring option \<Rightarrow> jsstring \<Rightarrow> options" where
  "request_options openRouterApiKey loc =
     \<lparr>http_method = ascii ''POST'',
      headers = request_headers openRouterApiKey,
      body = request_body loc\<rparr>"

definition http_error_message :: "nat \<Rightarrow> jsstring \<Rightarrow> jsstring \<Rightarrow> jsstring" where
  "http_error_message st stText errorText =
     ascii ''OpenRouter API '' @ [0xC694, 0xCCAD] @ ascii '' '' @ [0xC2E4, 0xD328] @ ascii '': ''
       @ show_nat st @ ascii '' '' @ stText @ ascii '' - '' @ errorText"

definition structure_error_label :: jsstring where
  "structure_error_label =
     ascii ''OpenRouter '' @ [0xC751, 0xB2F5] @ ascii '' '' @ [0xAD6C, 0xC870] @ ascii '' ''
       @ [0xC624, 0xB958] @ ascii '':''"

definition extraction_message :: jsstring where
  "extraction_message =
     ascii ''OpenRouter '' @ [0xC751, 0xB2F5, 0xC5D0, 0xC11C] @ ascii '' ''
       @ [0xBA54, 0xC2DC, 0xC9C0, 0xB97C] @ ascii '' '' @ [0xCD94, 0xCD9C, 0xD560] @ ascii '' ''
       @ [0xC218] @ ascii '' '' @ [0xC5C6, 0xC2B5, 0xB2C8, 0xB2E4] @ ascii ''.''"

definition search_error_label :: jsstring where
  "search_error_label =
     [0xC77C, 0xC790, 0xB9AC] @ ascii '' '' @ [0xAC80, 0xC0C9] @ ascii '' '' @ [0xC911]
       @ ascii '' '' @ [0xC624, 0xB958] @ ascii '' '' @ [0xBC1C, 0xC0DD] @ ascii '':''"

definition apology_preamble :: jsstring where
  "apology_preamble =
     [0xC8C4, 0xC1A1, 0xD569, 0xB2C8, 0xB2E4] @ ascii ''. '' @ [0xC77C, 0xC790, 0xB9AC]
       @ ascii '' '' @ [0xAC80, 0xC0C9] @ ascii '' '' @ [0xC911] @ ascii '' ''
       @ [0xBB38, 0xC81C, 0xAC00] @ ascii '' ''
       @ [0xBC1C, 0xC0DD, 0xD588, 0xC2B5, 0xB2C8, 0xB2E4] @ ascii ''. '' @ [0xC7A0, 0xC2DC]
       @ ascii '' '' @ [0xD6C4] @ ascii '' '' @ [0xB2E4, 0xC2DC] @ ascii '' ''
       @ [0xC2DC, 0xB3C4, 0xD574, 0xC8FC, 0xC138, 0xC694] @ ascii ''.''
       @ [0xA, 0xC624, 0xB958] @ ascii '': ''"

definition unknown_error_text :: jsstring where
  "unknown_error_text =
     [0xC54C] @ ascii '' '' @ [0xC218] @ ascii '' '' @ [0xC5C6, 0xB294] @ ascii '' ''
       @ [0xC624, 0xB958]"

text \<open>The \<^verbatim>\<open>try\<close> block of the handler: \<open>Inl\<close> is a fault thrown in it.\<close>

definition search_care_jobs_try ::
  "transport \<Rightarrow> jsstring option \<Rightarrow> args \<Rightarrow> io \<Rightarrow> (thrown + tool_result) \<times> io" where
  "search_care_jobs_try fetch openRouterApiKey a s =
     (case fetchWithTimeout fetch openRouterUrl
             (request_options openRouterApiKey (location a)) TIMEOUT_MS s of
        (Inl e, s1) \<Rightarrow> (Inl e, s1)
      | (Inr response, s1) \<Rightarrow>
          if \<not> ok response then
            (case read_text response of
               Inl e \<Rightarrow> (Inl e, s1)
             | Inr errorText \<Rightarrow>
                 (Inl (new_Error
                    (http_error_message (status response) (statusText response) errorText)),
                  s1))
          else
            (case read_json response of
               Inl e \<Rightarrow> (Inl e, s1)
             | Inr data \<Rightarrow>
                 (case assistant_message data of
                    Inl e \<Rightarrow> (Inl e, s1)
                  | Inr assistantMessage \<Rightarrow>
                      if \<not> truthy assistantMessage then
                        (Inl (new_Error extraction_message),
                         console_error structure_error_label (LoggedValue data) s1)
                      else
                        (Inr \<lparr>content =
                           [\<lparr>item_type = ascii ''text'', item_text = assistantMessage\<rparr>]\<rparr>,
                         s1))))"

text \<open>
  The handler: the \<^verbatim>\<open>try\<close> block and its \<^verbatim>\<open>catch\<close>. Its result is
  \<open>Inl\<close> when a fault leaves the handler.
\<close>

definition search_care_jobs ::
  "transport \<Rightarrow> jsstring option \<Rightarrow> args \<Rightarrow> io \<Rightarrow> (thrown + tool_result) \<times> io" where
  "search_care_jobs fetch openRouterApiKey a s =
     (case search_care_jobs_try fetch openRouterApiKey a s of
        (Inr result, s1) \<Rightarrow> (Inr result, s1)
      | (Inl error, s1) \<Rightarrow>
          (Inr \<lparr>content =
             [\<lparr>item_type = ascii ''text'',
               item_text =
                 JStr (apology_preamble
                   @ (if is_Error error then err_message error else unknown_error_text))\<rparr>]\<rparr>,
           console_error search_error_label (LoggedFault error) s1))"

section \<open>Module load and the registration gate\<close>

datatype zod = ZString jsstring

record tool =
  tool_name :: jsstring
  tool_description :: jsstring
  input_schema :: "(jsstring \<times> zod) list"
  tool_handler :: "args \<Rightarrow> io \<Rightarrow> (thrown + tool_result) \<times> io"

text \<open>
  The process: \<^verbatim>\<open>process.env\<close>, the timers and console, and the tool table of
  the server.
\<close>

record world =
  process_env :: "jsstring \<rightharpoonup> jsstring"
  proc_io :: io
  tool_table :: "tool list"

text \<open>
  What runs when the module is loaded: \<^verbatim>\<open>dotenv.config()\<close>, whose effect on
  \<^verbatim>\<open>process.env\<close> is the parameter \<open>dotenv_config\<close>, and then the read of
  \<^verbatim>\<open>process.env.OPENROUTER_API_KEY\<close> into the constant
  \<^verbatim>\<open>openRouterApiKey\<close>, which is returned.
\<close>

definition module_load ::
  "((jsstring \<rightharpoonup> jsstring) \<Rightarrow> (jsstring \<rightharpoonup> jsstring)) \<Rightarrow> world \<Rightarrow> jsstring option \<times> world" where
  "module_load dotenv_config w =
     (let w1 = w\<lparr>process_env := dotenv_config (process_env w)\<rparr> in
      (process_env w1 (ascii ''OPENROUTER_API_KEY''), w1))"

text \<open>
  Modelled from the spec: \<^verbatim>\<open>server\<close> is imported from
  \<^verbatim>\<open>../index.js\<close>, which is not part of the source. Its registration interface
  "accepts {name, description, inputSchema, handler} and exposes the capability for
  invocation" (spec 6): the entry is added to the tool table.
\<close>

definition server_tool ::
  "jsstring \<Rightarrow> jsstring \<Rightarrow> (jsstring \<times> zod) list
     \<Rightarrow> (args \<Rightarrow> io \<Rightarrow> (thrown + tool_result) \<times> io) \<Rightarrow> world \<Rightarrow> world" where
  "server_tool n d schema h w =
     w\<lparr>tool_table := tool_table w
        @ [\<lparr>tool_name = n, tool_description = d, input_schema = schema, tool_handler = h\<rparr>]\<rparr>"

definition missing_key_warning :: jsstring where
  "missing_key_warning =
     ascii ''OPENROUTER_API_KEY'' @ [0xAC00] @ ascii '' .env '' @ [0xD30C, 0xC77C, 0xC5D0]
       @ ascii '' '' @ [0xC5C6, 0xC2B5, 0xB2C8, 0xB2E4] @ ascii ''. '' @ [0x27]
       @ ascii ''search_care_jobs'' @ [0x27] @ ascii '' '' @ [0xB3C4, 0xAD6C, 0xAC00]
       @ ascii '' '' @ [0xB4F1, 0xB85D, 0xB418, 0xC9C0] @ ascii '' ''
       @ [0xC54A, 0xC2B5, 0xB2C8, 0xB2E4] @ ascii ''.''"

definition search_care_jobs_description :: jsstring where
  "search_care_jobs_description =
     [0xD55C, 0xAD6D, 0xC758] @ ascii '' ''
       @ [0xCF00, 0xC5B4, 0xD30C, 0xD2B8, 0xB108, 0xB77C, 0xB294] @ ascii '' ''
       @ [0xC11C, 0xBE44, 0xC2A4, 0xC5D0, 0xC11C] @ ascii '' '' @ [0xD2B9, 0xC815] @ ascii '' ''
       @ [0xC9C0, 0xC5ED, 0xC758] @ ascii '' '' @ [0xC694, 0xC591] @ ascii '' ''
       @ [0xC77C, 0xC790, 0xB9AC, 0xB97C] @ ascii '' ''
       @ [0xAC80, 0xC0C9, 0xD569, 0xB2C8, 0xB2E4] @ ascii ''.''"

definition location_description :: jsstring where
  "location_description =
     [0xAC80, 0xC0C9, 0xD560] @ ascii '' '' @ [0xC9C0, 0xC5ED] @ ascii '' '' @ [0xC8FC, 0xC18C]"

text \<open>
  The gate. \<^verbatim>\<open>openRouterApiKey\<close> is the module's constant, \<open>fetch\<close> the
  module's import; the handler closes over both.
\<close>

definition registerSearchCareJobsTool :: "transport \<Rightarrow> jsstring option \<Rightarrow> world \<Rightarrow> world" where
  "registerSearchCareJobsTool fetch openRouterApiKey w =
     (if \<not> truthy (key_value openRouterApiKey) then
        w\<lparr>proc_io := console_warn missing_key_warning (proc_io w)\<rparr>
      else
        server_tool (ascii ''search_care_jobs'') search_care_jobs_description
          [(ascii ''location'', ZString location_description)]
          (search_care_jobs fetch openRouterApiKey) w)"

section \<open>Example inputs\<close>

text \<open>Concrete states, arguments, responses and transports, for the examples below.\<close>

definition io0 :: io where
  "io0 = \<lparr>timers = [], next_timer = 0, trace = []\<rparr>"

definition args0 :: args where
  "args0 = \<lparr>location = ascii ''Seoul''\<rparr>"

definition key0 :: "jsstring option" where
  "key0 = Some (ascii ''sk-or-test'')"

definition completion_body :: "jsval \<Rightarrow> jsval" where
  "completion_body msg =
     JObj [(ascii ''choices'', JArr [JObj [(ascii ''message'', JObj [(ascii ''content'', msg)])]])]"

definition json_response :: "jsval \<Rightarrow> response" where
  "json_response data =
     \<lparr>ok = True, status = 200, statusText = ascii ''OK'',
      read_text = Inr [], read_json = Inr data\<rparr>"

definition fetch_fulfilled :: "response \<Rightarrow> transport" where
  "fetch_fulfilled r url opts = Fulfilled r"

definition fetch_rejected :: "thrown \<Rightarrow> transport" where
  "fetch_rejected e url opts = Rejected e"

definition fetch_deadline :: "jsstring \<Rightarrow> transport" where
  "fetch_deadline m url opts = DeadlineFirst m"

definition error_response :: "nat \<Rightarrow> jsstring \<Rightarrow> jsstring \<Rightarrow> response" where
  "error_response st stText txt =
     \<lparr>ok = False, status = st, statusText = stText,
      read_text = Inr txt, read_json = Inl (JsError (ascii ''FetchError'') (ascii ''invalid json''))\<rparr>"

definition io1 :: io where
  "io1 = \<lparr>timers = [3], next_timer = 5, trace = []\<rparr>"

definition world0 :: world where
  "world0 = \<lparr>process_env = Map.empty, proc_io = io0, tool_table = []\<rparr>"

definition dotenv_no_file :: "(jsstring \<rightharpoonup> jsstring) \<Rightarrow> (jsstring \<rightharpoonup> jsstring)" where
  "dotenv_no_file env = env"

definition world_with_key :: world where
  "world_with_key =
     \<lparr>process_env = [ascii ''OPENROUTER_API_KEY'' \<mapsto> ascii ''sk-or-test''],
      proc_io = io0, tool_table = []\<rparr>"

definition unparsable_response :: response where
  "unparsable_response =
     \<lparr>ok = True, status = 200, statusText = ascii ''OK'',
      read_text = Inr (ascii ''<html>''),
      read_json = Inl (JsError (ascii ''FetchError'') (ascii ''invalid json response body''))\<rparr>"

definition unreadable_error_response :: response where
  "unreadable_error_response =
     \<lparr>ok = False, status = 502, statusText = ascii ''Bad Gateway'',
      read_text = Inl (JsError (ascii ''FetchError'') (ascii ''Premature close'')),
      read_json = Inl (JsError (ascii ''FetchError'') (ascii ''Premature close''))\<rparr>"

section \<open>The handler by outcome of the request\<close>

lemma show_nat_25000: "show_nat 25000 = ascii ''25000''"
  by (simp add: show_nat.simps ascii_def)

lemma fetchWithTimeout_cases:
  "fetchWithTimeout fetch url opts timeout s =
     (case fetch url opts of
        Fulfilled r \<Rightarrow> (Inr r, clearTimeout (next_timer s) (snd (setTimeout timeout s)))
      | Rejected e \<Rightarrow>
          (if is_abort e then Inl (new_Error (timeout_message timeout)) else Inl e,
           clearTimeout (next_timer s) (snd (setTimeout timeout s)))
      | DeadlineFirst m \<Rightarrow>
          (Inl (new_Error (timeout_message timeout)),
           clearTimeout (next_timer s) (timer_fires (next_timer s) (snd (setTimeout timeout s)))))"
  by (simp add: fetchWithTimeout_def await_fetch_def setTimeout_def is_abort_def Let_def
      split: fetch_outcome.splits)

lemma catch_fault:
  "search_care_jobs_try fetch key a s = (Inl e, s1) \<Longrightarrow>
   search_care_jobs fetch key a s =
     (Inr \<lparr>content =
        [\<lparr>item_type = ascii ''text'',
          item_text = JStr (apology_preamble
            @ (case e of JsError n m \<Rightarrow> m | NonError v \<Rightarrow> unknown_error_text))\<rparr>]\<rparr>,
      console_error search_error_label (LoggedFault e) s1)"
  by (cases e) (simp_all add: search_care_jobs_def)

lemma handler_by_try:
  "search_care_jobs fetch key a s =
     (case search_care_jobs_try fetch key a s of
        (Inr result, s1) \<Rightarrow> (Inr result, s1)
      | (Inl e, s1) \<Rightarrow>
          (Inr \<lparr>content =
             [\<lparr>item_type = ascii ''text'',
               item_text = JStr (apology_preamble
                 @ (case e of JsError n m \<Rightarrow> m | NonError v \<Rightarrow> unknown_error_text))\<rparr>]\<rparr>,
           console_error search_error_label (LoggedFault e) s1))"
  by (simp add: search_care_jobs_def split: prod.splits sum.splits thrown.splits)

lemma try_rejected:
  "fetch openRouterUrl (request_options key (location a)) = Rejected e \<Longrightarrow>
   search_care_jobs_try fetch key a s =
     (if is_abort e then Inl (new_Error (timeout_message TIMEOUT_MS)) else Inl e,
      clearTimeout (next_timer s) (snd (setTimeout TIMEOUT_MS s)))"
  by (simp add: search_care_jobs_try_def fetchWithTimeout_cases)

lemma try_deadline:
  "fetch openRouterUrl (request_options key (location a)) = DeadlineFirst m \<Longrightarrow>
   search_care_jobs_try fetch key a s =
     (Inl (new_Error (timeout_message TIMEOUT_MS)),
      clearTimeout (next_timer s) (timer_fires (next_timer s) (snd (setTimeout TIMEOUT_MS s))))"
  by (simp add: search_care_jobs_try_def fetchWithTimeout_cases)

lemma try_fulfilled:
  "fetch openRouterUrl (request_options key (location a)) = Fulfilled r \<Longrightarrow>
   search_care_jobs_try fetch key a s =
     (let s1 = clearTimeout (next_timer s) (snd (setTimeout TIMEOUT_MS s)) in
      if \<not> ok r then
        (case read_text r of
           Inl e \<Rightarrow> (Inl e, s1)
         | Inr errorText \<Rightarrow>
             (Inl (new_Error (http_error_message (status r) (statusText r) errorText)), s1))
      else
        (case read_json r of
           Inl e \<Rightarrow> (Inl e, s1)
         | Inr data \<Rightarrow>
             (case assistant_message data of
                Inl e \<Rightarrow> (Inl e, s1)
              | Inr assistantMessage \<Rightarrow>
                  if \<not> truthy assistantMessage then
                    (Inl (new_Error extraction_message),
                     console_error structure_error_label (LoggedValue data) s1)
                  else
                    (Inr \<lparr>content =
                       [\<lparr>item_type = ascii ''text'', item_text = assistantMessage\<rparr>]\<rparr>,
                     s1))))"
  by (simp add: search_care_jobs_try_def fetchWithTimeout_cases Let_def)

lemma truthy_result_cases:
  assumes "search_care_jobs_try fetch key a s = (Inr res, s1)"
  shows "\<exists>r data v. fetch openRouterUrl (request_options key (location a)) = Fulfilled r \<and>
           ok r \<and> read_json r = Inr data \<and> assistant_message data = Inr v \<and> truthy v \<and>
           res = \<lparr>content = [\<lparr>item_type = ascii ''text'', item_text = v\<rparr>]\<rparr>"
proof (cases "fetch openRouterUrl (request_options key (location a))")
  case (Fulfilled r)
  from assms show ?thesis
    unfolding try_fulfilled [of fetch key a r s, OF Fulfilled]
    by (auto simp: Let_def Fulfilled split: if_splits sum.splits)
next
  case (Rejected e)
  from assms show ?thesis
    unfolding try_rejected [of fetch key a e s, OF Rejected] by (simp split: if_splits)
next
  case (DeadlineFirst m)
  from assms show ?thesis
    unfolding try_deadline [of fetch key a m s, OF DeadlineFirst] by simp
qed

lemma assistant_message_completion_body:
  "assistant_message (completion_body v) = Inr v"
  by (simp add: assistant_message_def completion_body_def ascii_def)

lemma show_nat_500: "show_nat 500 = ascii ''500''"
  by (simp add: show_nat.simps ascii_def)

lemma sublist_timeout_message: "sublist (show_nat timeout) (pre @ timeout_message timeout)"
proof -
  have "pre @ timeout_message timeout =
      (pre @ [0xC694, 0xCCAD] @ ascii '' '' @ [0xC2DC, 0xAC04, 0xC774] @ ascii '' ''
         @ [0xCD08, 0xACFC, 0xB418, 0xC5C8, 0xC2B5, 0xB2C8, 0xB2E4] @ ascii ''. ('')
      @ show_nat timeout @ ascii ''ms)''"
    by (simp add: timeout_message_def)
  then show ?thesis
    by (simp only: sublist_appendI)
qed

lemma sublists_http_error_message:
  "sublist (show_nat st) (pre @ http_error_message st stText errorText)"
  "sublist stText (pre @ http_error_message st stText errorText)"
  "sublist errorText (pre @ http_error_message st stText errorText)"
proof -
  let ?p = "pre @ ascii ''OpenRouter API '' @ [0xC694, 0xCCAD] @ ascii '' '' @ [0xC2E4, 0xD328] @ ascii '': ''"
  have 1: "pre @ http_error_message st stText errorText =
      ?p @ show_nat st @ (ascii '' '' @ stText @ ascii '' - '' @ errorText)"
    by (simp add: http_error_message_def)
  have 2: "pre @ http_error_message st stText errorText =
      (?p @ show_nat st @ ascii '' '') @ stText @ (ascii '' - '' @ errorText)"
    by (simp add: http_error_message_def)
  have 3: "pre @ http_error_message st stText errorText =
      (?p @ show_nat st @ ascii '' '' @ stText @ ascii '' - '') @ errorText @ []"
    by (simp add: http_error_message_def)
  show "sublist (show_nat st) (pre @ http_error_message st stText errorText)"
    by (simp only: 1 sublist_appendI)
  show "sublist stText (pre @ http_error_message st stText errorText)"
    by (simp only: 2 sublist_appendI)
  show "sublist errorText (pre @ http_error_message st stText errorText)"
    by (simp only: 3 sublist_appendI)
qed

lemma trace_after_fetchWithTimeout:
  "\<exists>mid. trace (snd (fetchWithTimeout fetch url opts timeout s)) =
     trace s @ [SetTimeout (next_timer s) timeout] @ mid @ [ClearTimeout (next_timer s)]"
  by (cases "fetch url opts")
     (simp_all add: fetchWithTimeout_cases setTimeout_def clearTimeout_def timer_fires_def)

lemma timers_after_fetchWithTimeout:
  "timers (snd (fetchWithTimeout fetch url opts timeout s)) = removeAll (next_timer s) (timers s)"
  by (cases "fetch url opts")
     (simp_all add: fetchWithTimeout_cases setTimeout_def clearTimeout_def timer_fires_def)

lemma timers_after_try:
  "timers (snd (search_care_jobs_try fetch key a s)) = removeAll (next_timer s) (timers s)"
proof -
  obtain x s1 where f: "fetchWithTimeout fetch openRouterUrl
      (request_options key (location a)) TIMEOUT_MS s = (x, s1)"
    by (cases "fetchWithTimeout fetch openRouterUrl (request_options key (location a)) TIMEOUT_MS s")
  with timers_after_fetchWithTimeout
    [of fetch openRouterUrl "request_options key (location a)" TIMEOUT_MS s]
  have "timers s1 = removeAll (next_timer s) (timers s)" by simp
  then show ?thesis
    by (simp add: search_care_jobs_try_def f console_error_def split: sum.splits)
qed

lemma timers_after_handler:
  "timers (snd (search_care_jobs fetch key a s)) = removeAll (next_timer s) (timers s)"
proof -
  obtain x s1 where t: "search_care_jobs_try fetch key a s = (x, s1)"
    by (cases "search_care_jobs_try fetch key a s")
  with timers_after_try [of fetch key a s]
  have "timers s1 = removeAll (next_timer s) (timers s)" by simp
  then show ?thesis
    by (simp add: search_care_jobs_def t console_error_def split: sum.splits)
qed

lemma sublists_missing_key_warning:
  "sublist (ascii ''OPENROUTER_API_KEY'') missing_key_warning"
  "sublist (ascii ''search_care_jobs'') missing_key_warning"
proof -
  have 1: "missing_key_warning =
      [] @ ascii ''OPENROUTER_API_KEY''
        @ ([0xAC00] @ ascii '' .env '' @ [0xD30C, 0xC77C, 0xC5D0]
       @ ascii '' '' @ [0xC5C6, 0xC2B5, 0xB2C8, 0xB2E4] @ ascii ''. '' @ [0x27]
       @ ascii ''search_care_jobs'' @ [0x27] @ ascii '' '' @ [0xB3C4, 0xAD6C, 0xAC00]
       @ ascii '' '' @ [0xB4F1, 0xB85D, 0xB418, 0xC9C0] @ ascii '' ''
       @ [0xC54A, 0xC2B5, 0xB2C8, 0xB2E4] @ ascii ''.'')"
    by (simp add: missing_key_warning_def)
  have 2: "missing_key_warning =
      (ascii ''OPENROUTER_API_KEY'' @ [0xAC00] @ ascii '' .env '' @ [0xD30C, 0xC77C, 0xC5D0]
       @ ascii '' '' @ [0xC5C6, 0xC2B5, 0xB2C8, 0xB2E4] @ ascii ''. '' @ [0x27])
       @ ascii ''search_care_jobs'' @ ([0x27] @ ascii '' '' @ [0xB3C4, 0xAD6C, 0xAC00]
       @ ascii '' '' @ [0xB4F1, 0xB85D, 0xB418, 0xC9C0] @ ascii '' ''
       @ [0xC54A, 0xC2B5, 0xB2C8, 0xB2E4] @ ascii ''.'')"
    by (simp add: missing_key_warning_def)
  show "sublist (ascii ''OPENROUTER_API_KEY'') missing_key_warning"
    by (subst 1) (rule sublist_appendI)
  show "sublist (ascii ''search_care_jobs'') missing_key_warning"
    by (subst 2) (rule sublist_appendI)
qed

lemma get_member_total: "\<not> nullish v \<Longrightarrow> \<exists>x. get_member v k = Inr x"
  by (cases v) simp_all

lemma get_index0_total: "\<not> nullish v \<Longrightarrow> \<exists>x. get_index0 v = Inr x"
  by (cases "v" rule: get_index0.cases) simp_all

lemma assistant_message_total:
  assumes "\<not> nullish data"
  shows "\<exists>v. assistant_message data = Inr v"
proof -
  from get_member_total [OF assms] obtain choices where
    c: "get_member data (ascii ''choices'') = Inr choices" by blast
  show ?thesis
  proof (cases "nullish choices")
    case True
    with c show ?thesis by (simp add: assistant_message_def)
  next
    case nc: False
    from get_index0_total [OF nc] obtain first where f: "get_index0 choices = Inr first"
      by blast
    show ?thesis
    proof (cases "nullish first")
      case True
      with c nc f show ?thesis by (simp add: assistant_message_def)
    next
      case nf: False
      from get_member_total [OF nf] obtain message where
        m: "get_member first (ascii ''message'') = Inr message" by blast
      show ?thesis
      proof (cases "nullish message")
        case True
        with c nc f nf m show ?thesis by (simp add: assistant_message_def)
      next
        case False
        from get_member_total [OF False] obtain x where
          "get_member message (ascii ''content'') = Inr x" by blast
        with c nc f nf m False show ?thesis by (simp add: assistant_message_def)
      qed
    qed
  qed
qed

section \<open>Properties\<close>

text \<open>
  C1. The handler never lets a fault out. For every transport, key, arguments and state it
  returns a tool result (\<open>Inr\<close>) with exactly one content item, of type
  \<^verbatim>\<open>"text"\<close>, and for every kind of fault the text \<open>t\<close> of that item is
  the string made of the apology preamble and the fault's message:
  \<^item> timeout (the deadline timer fires first, or the transport rejects with an
    \<^verbatim>\<open>AbortError\<close>): the timeout message naming \<open>TIMEOUT_MS\<close>;
  \<^item> transport failure (any other rejection): the message of the rejection;
  \<^item> non-success status: the message embedding status, status text and body, or the
    message of the fault of \<^verbatim>\<open>response.text()\<close> when reading the body fails;
  \<^item> malformed body: the message of the fault of \<^verbatim>\<open>response.json()\<close>, the
    message of the \<^verbatim>\<open>TypeError\<close> of the access chain, or the
    extraction-failure message when the content is falsy;
  \<^item> in general, whenever a fault \<open>e\<close> arises in the \<^verbatim>\<open>try\<close> block, the
    message of \<open>e\<close>, after \<open>e\<close> has been logged.
  For a thrown value that is not an \<^verbatim>\<open>Error\<close>, which has no message, the
  text after the preamble is the fixed "unknown error" text of the source.
\<close>

theorem handler_converts_every_fault:
  "\<exists>t. fst (search_care_jobs fetch key a s) =
          Inr \<lparr>content = [\<lparr>item_type = ascii ''text'', item_text = t\<rparr>]\<rparr> \<and>
     (\<forall>m. fetch openRouterUrl (request_options key (location a)) = DeadlineFirst m \<longrightarrow>
        t = JStr (apology_preamble @ timeout_message TIMEOUT_MS)) \<and>
     (\<forall>e. fetch openRouterUrl (request_options key (location a)) = Rejected e \<and> is_abort e \<longrightarrow>
        t = JStr (apology_preamble @ timeout_message TIMEOUT_MS)) \<and>
     (\<forall>e. fetch openRouterUrl (request_options key (location a)) = Rejected e \<and> \<not> is_abort e \<longrightarrow>
        t = JStr (apology_preamble
              @ (case e of JsError n m \<Rightarrow> m | NonError v \<Rightarrow> unknown_error_text))) \<and>
     (\<forall>r errorText.
        fetch openRouterUrl (request_options key (location a)) = Fulfilled r \<and> \<not> ok r \<and>
        read_text r = Inr errorText \<longrightarrow>
        t = JStr (apology_preamble @ http_error_message (status r) (statusText r) errorText)) \<and>
     (\<forall>r e.
        fetch openRouterUrl (request_options key (location a)) = Fulfilled r \<and> \<not> ok r \<and>
        read_text r = Inl e \<longrightarrow>
        t = JStr (apology_preamble
              @ (case e of JsError n m \<Rightarrow> m | NonError v \<Rightarrow> unknown_error_text))) \<and>
     (\<forall>r e.
        fetch openRouterUrl (request_options key (location a)) = Fulfilled r \<and> ok r \<and>
        read_json r = Inl e \<longrightarrow>
        t = JStr (apology_preamble
              @ (case e of JsError n m \<Rightarrow> m | NonError v \<Rightarrow> unknown_error_text))) \<and>
     (\<forall>r data e.
        fetch openRouterUrl (request_options key (location a)) = Fulfilled r \<and> ok r \<and>
        read_json r = Inr data \<and> assistant_message data = Inl e \<longrightarrow>
        t = JStr (apology_preamble
              @ (case e of JsError n m \<Rightarrow> m | NonError v \<Rightarrow> unknown_error_text))) \<and>
     (\<forall>r data v.
        fetch openRouterUrl (request_options key (location a)) = Fulfilled r \<and> ok r \<and>
        read_json r = Inr data \<and> assistant_message data = Inr v \<and> \<not> truthy v \<longrightarrow>
        t = JStr (apology_preamble @ extraction_message)) \<and>
     (\<forall>e s1. search_care_jobs_try fetch key a s = (Inl e, s1) \<longrightarrow>
        t = JStr (apology_preamble
              @ (case e of JsError n m \<Rightarrow> m | NonError v \<Rightarrow> unknown_error_text)) \<and>
        snd (search_care_jobs fetch key a s) =
          console_error search_error_label (LoggedFault e) s1)"
proof (cases "fetch openRouterUrl (request_options key (location a))")
  case (Fulfilled r)
  show ?thesis
    unfolding handler_by_try try_fulfilled [of fetch key a r s, OF Fulfilled] Fulfilled
    by (simp add: Let_def new_Error_def split: sum.splits)
next
  case (Rejected e)
  show ?thesis
    unfolding handler_by_try try_rejected [of fetch key a e s, OF Rejected] Rejected
    by (simp add: new_Error_def)
next
  case (DeadlineFirst m)
  show ?thesis
    unfolding handler_by_try try_deadline [of fetch key a m s, OF DeadlineFirst] DeadlineFirst
    by (simp add: new_Error_def)
qed

theorem handler_converts_every_fault_witness:
  "fst (search_care_jobs (fetch_deadline (ascii ''The user aborted a request.'')) key0 args0 io0) =
     Inr \<lparr>content = [\<lparr>item_type = ascii ''text'', item_text = JStr (apology_preamble @ timeout_message TIMEOUT_MS)\<rparr>]\<rparr> \<and>
   fst (search_care_jobs (fetch_rejected (JsError (ascii ''AbortError'') (ascii ''The user aborted a request.''))) key0 args0 io0) =
     Inr \<lparr>content = [\<lparr>item_type = ascii ''text'', item_text = JStr (apology_preamble @ timeout_message TIMEOUT_MS)\<rparr>]\<rparr> \<and>
   search_care_jobs (fetch_rejected (JsError (ascii ''FetchError'') (ascii ''socket hang up''))) key0 args0 io0 =
     (Inr \<lparr>content = [\<lparr>item_type = ascii ''text'', item_text = JStr (apology_preamble @ ascii ''socket hang up'')\<rparr>]\<rparr>,
      \<lparr>timers = [], next_timer = 1,
       trace = [SetTimeout 0 25000, ClearTimeout 0,
                ConsoleError search_error_label (LoggedFault (JsError (ascii ''FetchError'') (ascii ''socket hang up'')))]\<rparr>) \<and>
   fst (search_care_jobs (fetch_fulfilled (error_response 500 (ascii ''Internal Server Error'') (ascii ''server error''))) key0 args0 io0) =
     Inr \<lparr>content = [\<lparr>item_type = ascii ''text'', item_text = JStr (apology_preamble @ http_error_message 500 (ascii ''Internal Server Error'') (ascii ''server error''))\<rparr>]\<rparr> \<and>
   fst (search_care_jobs (fetch_fulfilled unreadable_error_response) key0 args0 io0) =
     Inr \<lparr>content = [\<lparr>item_type = ascii ''text'', item_text = JStr (apology_preamble @ ascii ''Premature close'')\<rparr>]\<rparr> \<and>
   fst (search_care_jobs (fetch_fulfilled unparsable_response) key0 args0 io0) =
     Inr \<lparr>content = [\<lparr>item_type = ascii ''text'', item_text = JStr (apology_preamble @ ascii ''invalid json response body'')\<rparr>]\<rparr> \<and>
   fst (search_care_jobs (fetch_fulfilled (json_response JNull)) key0 args0 io0) =
     Inr \<lparr>content = [\<lparr>item_type = ascii ''text'', item_text = JStr (apology_preamble @ err_message (cannot_read (ascii ''null'') (ascii ''choices'')))\<rparr>]\<rparr> \<and>
   fst (search_care_jobs (fetch_fulfilled (json_response (JObj []))) key0 args0 io0) =
     Inr \<lparr>content = [\<lparr>item_type = ascii ''text'', item_text = JStr (apology_preamble @ extraction_message)\<rparr>]\<rparr>"
proof -
  have w1: "fst (search_care_jobs (fetch_deadline (ascii ''The user aborted a request.'')) key0 args0 io0) =
     Inr \<lparr>content = [\<lparr>item_type = ascii ''text'', item_text = JStr (apology_preamble @ timeout_message TIMEOUT_MS)\<rparr>]\<rparr>"
    using handler_converts_every_fault [of "fetch_deadline (ascii ''The user aborted a request.'')" key0 args0 io0]
    by (auto simp: fetch_deadline_def)
  have w2: "fst (search_care_jobs (fetch_rejected (JsError (ascii ''AbortError'') (ascii ''The user aborted a request.''))) key0 args0 io0) =
     Inr \<lparr>content = [\<lparr>item_type = ascii ''text'', item_text = JStr (apology_preamble @ timeout_message TIMEOUT_MS)\<rparr>]\<rparr>"
    using handler_converts_every_fault [of "fetch_rejected (JsError (ascii ''AbortError'') (ascii ''The user aborted a request.''))" key0 args0 io0]
    by (auto simp: fetch_rejected_def is_abort_def)
  have w4: "fst (search_care_jobs (fetch_fulfilled (error_response 500 (ascii ''Internal Server Error'') (ascii ''server error''))) key0 args0 io0) =
     Inr \<lparr>content = [\<lparr>item_type = ascii ''text'', item_text = JStr (apology_preamble @ http_error_message 500 (ascii ''Internal Server Error'') (ascii ''server error''))\<rparr>]\<rparr>"
    using handler_converts_every_fault [of "fetch_fulfilled (error_response 500 (ascii ''Internal Server Error'') (ascii ''server error''))" key0 args0 io0]
    by (auto simp: fetch_fulfilled_def error_response_def)
  have w5: "fst (search_care_jobs (fetch_fulfilled unreadable_error_response) key0 args0 io0) =
     Inr \<lparr>content = [\<lparr>item_type = ascii ''text'', item_text = JStr (apology_preamble @ ascii ''Premature close'')\<rparr>]\<rparr>"
    using handler_converts_every_fault [of "fetch_fulfilled unreadable_error_response" key0 args0 io0]
    by (auto simp: fetch_fulfilled_def unreadable_error_response_def)
  have w6: "fst (search_care_jobs (fetch_fulfilled unparsable_response) key0 args0 io0) =
     Inr \<lparr>content = [\<lparr>item_type = ascii ''text'', item_text = JStr (apology_preamble @ ascii ''invalid json response body'')\<rparr>]\<rparr>"
    using handler_converts_every_fault [of "fetch_fulfilled unparsable_response" key0 args0 io0]
    by (auto simp: fetch_fulfilled_def unparsable_response_def)
  have w7: "fst (search_care_jobs (fetch_fulfilled (json_response JNull)) key0 args0 io0) =
     Inr \<lparr>content = [\<lparr>item_type = ascii ''text'', item_text = JStr (apology_preamble @ err_message (cannot_read (ascii ''null'') (ascii ''choices'')))\<rparr>]\<rparr>"
    using handler_converts_every_fault [of "fetch_fulfilled (json_response JNull)" key0 args0 io0]
    by (auto simp: fetch_fulfilled_def json_response_def assistant_message_def cannot_read_def)
  have w8: "fst (search_care_jobs (fetch_fulfilled (json_response (JObj []))) key0 args0 io0) =
     Inr \<lparr>content = [\<lparr>item_type = ascii ''text'', item_text = JStr (apology_preamble @ extraction_message)\<rparr>]\<rparr>"
    using handler_converts_every_fault [of "fetch_fulfilled (json_response (JObj []))" key0 args0 io0]
    by (auto simp: fetch_fulfilled_def json_response_def assistant_message_def)
  have f: "fetch_rejected (JsError (ascii ''FetchError'') (ascii ''socket hang up'')) openRouterUrl (request_options key0 (location args0)) =
      Rejected (JsError (ascii ''FetchError'') (ascii ''socket hang up''))"
    by (simp add: fetch_rejected_def)
  have t: "search_care_jobs_try (fetch_rejected (JsError (ascii ''FetchError'') (ascii ''socket hang up''))) key0 args0 io0 =
      (Inl (JsError (ascii ''FetchError'') (ascii ''socket hang up'')), \<lparr>timers = [], next_timer = 1, trace = [SetTimeout 0 25000, ClearTimeout 0]\<rparr>)"
    unfolding try_rejected [of "fetch_rejected (JsError (ascii ''FetchError'') (ascii ''socket hang up''))" key0 args0 _ io0, OF f]
    by (simp add: is_abort_def ascii_def io0_def setTimeout_def clearTimeout_def TIMEOUT_MS_def)
  have w3: "search_care_jobs (fetch_rejected (JsError (ascii ''FetchError'') (ascii ''socket hang up''))) key0 args0 io0 =
     (Inr \<lparr>content = [\<lparr>item_type = ascii ''text'', item_text = JStr (apology_preamble @ ascii ''socket hang up'')\<rparr>]\<rparr>,
      \<lparr>timers = [], next_timer = 1,
       trace = [SetTimeout 0 25000, ClearTimeout 0,
                ConsoleError search_error_label (LoggedFault (JsError (ascii ''FetchError'') (ascii ''socket hang up'')))]\<rparr>)"
    using handler_converts_every_fault [of "fetch_rejected (JsError (ascii ''FetchError'') (ascii ''socket hang up''))" key0 args0 io0] t
    by (cases "search_care_jobs (fetch_rejected (JsError (ascii ''FetchError'') (ascii ''socket hang up''))) key0 args0 io0")
       (auto simp: console_error_def)
  from w1 w2 w3 w4 w5 w6 w7 w8 show ?thesis
    by blast
qed

text \<open>
  C2 (as amended). When the upstream answers with a success status and a body whose
  \<^verbatim>\<open>choices[0].message.content\<close> is a non-empty string \<open>t\<close>, the handler
  returns the tool result with exactly one content item, of type \<^verbatim>\<open>"text"\<close>,
  whose text is \<open>t\<close>. The \<^verbatim>\<open>try\<close> block returns a result only on the
  path of a truthy content: whenever it returns, the request was fulfilled with a success
  status, the body was parsed, the content is truthy (the guard tests truthiness, so the
  content need not be a string), and the result, which the handler hands on unchanged, is
  the one text item holding that content.
\<close>

theorem nonempty_message_is_returned:
  "(fetch openRouterUrl (request_options key (location a)) = Fulfilled r \<and> ok r \<and>
      read_json r = Inr data \<and> assistant_message data = Inr (JStr t) \<and> t \<noteq> [] \<longrightarrow>
    fst (search_care_jobs fetch key a s) =
      Inr \<lparr>content = [\<lparr>item_type = ascii ''text'', item_text = JStr t\<rparr>]\<rparr>) \<and>
   (\<forall>res s1. search_care_jobs_try fetch key a s = (Inr res, s1) \<longrightarrow>
      (\<exists>r' data' v. fetch openRouterUrl (request_options key (location a)) = Fulfilled r' \<and>
         ok r' \<and> read_json r' = Inr data' \<and> assistant_message data' = Inr v \<and> truthy v \<and>
         res = \<lparr>content = [\<lparr>item_type = ascii ''text'', item_text = v\<rparr>]\<rparr> \<and>
         search_care_jobs fetch key a s = (Inr res, s1)))"
proof (intro conjI impI allI)
  assume h: "fetch openRouterUrl (request_options key (location a)) = Fulfilled r \<and> ok r \<and>
      read_json r = Inr data \<and> assistant_message data = Inr (JStr t) \<and> t \<noteq> []"
  then have f: "fetch openRouterUrl (request_options key (location a)) = Fulfilled r"
    by simp
  from h show "fst (search_care_jobs fetch key a s) =
      Inr \<lparr>content = [\<lparr>item_type = ascii ''text'', item_text = JStr t\<rparr>]\<rparr>"
    by (simp add: search_care_jobs_def try_fulfilled [of fetch key a r s, OF f] Let_def)
next
  fix res s1
  assume t: "search_care_jobs_try fetch key a s = (Inr res, s1)"
  from truthy_result_cases [OF t] obtain r' data' v where
    "fetch openRouterUrl (request_options key (location a)) = Fulfilled r'" "ok r'"
    "read_json r' = Inr data'" "assistant_message data' = Inr v" "truthy v"
    "res = \<lparr>content = [\<lparr>item_type = ascii ''text'', item_text = v\<rparr>]\<rparr>"
    by blast
  moreover from t have "search_care_jobs fetch key a s = (Inr res, s1)"
    by (simp add: search_care_jobs_def)
  ultimately show "\<exists>r' data' v. fetch openRouterUrl (request_options key (location a)) = Fulfilled r' \<and>
         ok r' \<and> read_json r' = Inr data' \<and> assistant_message data' = Inr v \<and> truthy v \<and>
         res = \<lparr>content = [\<lparr>item_type = ascii ''text'', item_text = v\<rparr>]\<rparr> \<and>
         search_care_jobs fetch key a s = (Inr res, s1)"
    by blast
qed

theorem nonempty_message_is_returned_witness:
  "fst (search_care_jobs (fetch_fulfilled (json_response (completion_body (JStr (ascii ''1. Title...'')))))
         key0 args0 io0) =
     Inr \<lparr>content = [\<lparr>item_type = ascii ''text'', item_text = JStr (ascii ''1. Title...'')\<rparr>]\<rparr> \<and>
   search_care_jobs_try (fetch_fulfilled (json_response (completion_body (JStr (ascii ''1. Title...'')))))
       key0 args0 io0 =
     (Inr \<lparr>content = [\<lparr>item_type = ascii ''text'', item_text = JStr (ascii ''1. Title...'')\<rparr>]\<rparr>,
      \<lparr>timers = [], next_timer = 1, trace = [SetTimeout 0 25000, ClearTimeout 0]\<rparr>) \<and>
   (\<exists>r' data' v.
       fetch_fulfilled (json_response (completion_body (JStr (ascii ''1. Title...'')))) openRouterUrl
         (request_options key0 (location args0)) = Fulfilled r' \<and>
       ok r' \<and> read_json r' = Inr data' \<and> assistant_message data' = Inr v \<and> truthy v \<and>
       \<lparr>content = [\<lparr>item_type = ascii ''text'', item_text = JStr (ascii ''1. Title...'')\<rparr>]\<rparr> =
         \<lparr>content = [\<lparr>item_type = ascii ''text'', item_text = v\<rparr>]\<rparr>)"
proof -
  let ?F = "fetch_fulfilled (json_response (completion_body (JStr (ascii ''1. Title...''))))"
  let ?res = "\<lparr>content = [\<lparr>item_type = ascii ''text'', item_text = JStr (ascii ''1. Title...'')\<rparr>]\<rparr>"
  let ?s1 = "\<lparr>timers = [], next_timer = 1, trace = [SetTimeout 0 25000, ClearTimeout 0]\<rparr>"
  note inst = nonempty_message_is_returned
    [of ?F key0 args0 "json_response (completion_body (JStr (ascii ''1. Title...'')))"
        "completion_body (JStr (ascii ''1. Title...''))" "ascii ''1. Title...''" io0]
  have ne: "ascii ''1. Title...'' \<noteq> []"
    by (simp add: ascii_def)
  have f: "?F openRouterUrl (request_options key0 (location args0)) =
             Fulfilled (json_response (completion_body (JStr (ascii ''1. Title...''))))"
    by (simp add: fetch_fulfilled_def)
  have t: "search_care_jobs_try ?F key0 args0 io0 = (Inr ?res, ?s1)"
    unfolding try_fulfilled [of ?F key0 args0 _ io0, OF f]
    using ne
    by (simp add: Let_def json_response_def assistant_message_completion_body io0_def
        setTimeout_def clearTimeout_def TIMEOUT_MS_def)
  have first: "fst (search_care_jobs ?F key0 args0 io0) = Inr ?res"
    using inst ne f by (simp add: json_response_def assistant_message_completion_body)
  from inst t have "\<exists>r' data' v.
       ?F openRouterUrl (request_options key0 (location args0)) = Fulfilled r' \<and>
       ok r' \<and> read_json r' = Inr data' \<and> assistant_message data' = Inr v \<and> truthy v \<and>
       ?res = \<lparr>content = [\<lparr>item_type = ascii ''text'', item_text = v\<rparr>]\<rparr>"
    by blast
  with first t show ?thesis by blast
qed

text \<open>
  C2, as stated, fails twice. At the empty string the content is present and is a string,
  yet the handler answers with the apology and the extraction-failure message. And the
  path of a string content is not the sole success path: at the content
  \<^verbatim>\<open>42\<close> the handler succeeds, with the number as the text of the item.
\<close>

theorem empty_message_counterexample:
  "ok (json_response (completion_body (JStr []))) \<and>
   read_json (json_response (completion_body (JStr []))) = Inr (completion_body (JStr [])) \<and>
   assistant_message (completion_body (JStr [])) = Inr (JStr []) \<and>
   fst (search_care_jobs (fetch_fulfilled (json_response (completion_body (JStr [])))) key0 args0 io0) =
     Inr \<lparr>content = [\<lparr>item_type = ascii ''text'',
                       item_text = JStr (apology_preamble @ extraction_message)\<rparr>]\<rparr> \<and>
   fst (search_care_jobs (fetch_fulfilled (json_response (completion_body (JStr [])))) key0 args0 io0) \<noteq>
     Inr \<lparr>content = [\<lparr>item_type = ascii ''text'', item_text = JStr []\<rparr>]\<rparr> \<and>
   assistant_message (completion_body (JNum 42)) = Inr (JNum 42) \<and>
   fst (search_care_jobs (fetch_fulfilled (json_response (completion_body (JNum 42)))) key0 args0 io0) =
     Inr \<lparr>content = [\<lparr>item_type = ascii ''text'', item_text = JNum 42\<rparr>]\<rparr>"
proof -
  have f: "fetch_fulfilled (json_response (completion_body (JStr []))) openRouterUrl
             (request_options key0 (location args0)) = Fulfilled (json_response (completion_body (JStr [])))"
    by (simp add: fetch_fulfilled_def)
  have r: "fst (search_care_jobs (fetch_fulfilled (json_response (completion_body (JStr [])))) key0 args0 io0) =
     Inr \<lparr>content = [\<lparr>item_type = ascii ''text'',
                       item_text = JStr (apology_preamble @ extraction_message)\<rparr>]\<rparr>"
    unfolding search_care_jobs_def
      try_fulfilled [of "fetch_fulfilled (json_response (completion_body (JStr [])))" key0 args0
        "json_response (completion_body (JStr []))" io0, OF f]
    by (simp add: Let_def json_response_def assistant_message_completion_body new_Error_def)
  have g: "fetch_fulfilled (json_response (completion_body (JNum 42))) openRouterUrl
             (request_options key0 (location args0)) = Fulfilled (json_response (completion_body (JNum 42)))"
    by (simp add: fetch_fulfilled_def)
  have n: "fst (search_care_jobs (fetch_fulfilled (json_response (completion_body (JNum 42)))) key0 args0 io0) =
     Inr \<lparr>content = [\<lparr>item_type = ascii ''text'', item_text = JNum 42\<rparr>]\<rparr>"
    unfolding search_care_jobs_def
      try_fulfilled [of "fetch_fulfilled (json_response (completion_body (JNum 42)))" key0 args0
        "json_response (completion_body (JNum 42))" io0, OF g]
    by (simp add: Let_def json_response_def assistant_message_completion_body)
  have "apology_preamble @ extraction_message \<noteq> []"
    by (simp add: apology_preamble_def)
  with r n show ?thesis
    by (simp add: json_response_def assistant_message_completion_body)
qed

text \<open>
  C3. When the deadline timer fires before the request completes, the wrapper throws the
  timeout fault, and the handler returns the tool result whose text is the apology preamble
  followed by the timeout message for \<open>TIMEOUT_MS\<close>: it starts with the preamble and
  contains \<^verbatim>\<open>25000\<close>.
\<close>

theorem deadline_gives_timeout_text:
  assumes "fetch openRouterUrl (request_options key (location a)) = DeadlineFirst m"
  shows "fst (fetchWithTimeout fetch openRouterUrl (request_options key (location a)) TIMEOUT_MS s) =
           Inl (new_Error (timeout_message TIMEOUT_MS)) \<and>
         (\<exists>t. fst (search_care_jobs fetch key a s) =
                Inr \<lparr>content = [\<lparr>item_type = ascii ''text'', item_text = JStr t\<rparr>]\<rparr> \<and>
              t = apology_preamble @ timeout_message TIMEOUT_MS \<and>
              prefix apology_preamble t \<and>
              sublist (ascii ''25000'') t)"
proof -
  have "sublist (ascii ''25000'') (apology_preamble @ timeout_message TIMEOUT_MS)"
    using sublist_timeout_message [of TIMEOUT_MS apology_preamble]
    by (simp add: TIMEOUT_MS_def show_nat_25000)
  moreover have "fst (search_care_jobs fetch key a s) =
      Inr \<lparr>content = [\<lparr>item_type = ascii ''text'',
                        item_text = JStr (apology_preamble @ timeout_message TIMEOUT_MS)\<rparr>]\<rparr>"
    by (simp add: search_care_jobs_def try_deadline [of fetch key a m s, OF assms] new_Error_def)
  moreover have "fst (fetchWithTimeout fetch openRouterUrl (request_options key (location a)) TIMEOUT_MS s) =
           Inl (new_Error (timeout_message TIMEOUT_MS))"
    by (simp add: fetchWithTimeout_cases assms)
  ultimately show ?thesis by simp
qed

theorem deadline_gives_timeout_text_witness:
  "\<exists>t. fst (search_care_jobs (fetch_deadline (ascii ''The user aborted a request.'')) key0 args0 io0) =
          Inr \<lparr>content = [\<lparr>item_type = ascii ''text'', item_text = JStr t\<rparr>]\<rparr> \<and>
        prefix apology_preamble t \<and> sublist (ascii ''25000'') t"
proof -
  have "fetch_deadline (ascii ''The user aborted a request.'') openRouterUrl
          (request_options key0 (location args0)) = DeadlineFirst (ascii ''The user aborted a request.'')"
    by (simp add: fetch_deadline_def)
  from deadline_gives_timeout_text
    [where fetch = "fetch_deadline (ascii ''The user aborted a request.'')" and key = key0
       and a = args0 and s = io0, OF this]
  show ?thesis
    by blast
qed

text \<open>
  C4. When the upstream answers with a status that is not a success, the handler reads the
  body as text and throws a fault whose message embeds the status code, the status text and
  the body text \<open>errorText\<close> that \<^verbatim>\<open>response.text()\<close> gave; the text
  of the returned tool result contains all three.
\<close>

theorem http_error_is_reported:
  assumes "fetch openRouterUrl (request_options key (location a)) = Fulfilled r"
    and "\<not> ok r"
    and "read_text r = Inr errorText"
  shows "fst (search_care_jobs_try fetch key a s) =
           Inl (new_Error (http_error_message (status r) (statusText r) errorText)) \<and>
         (\<exists>t. fst (search_care_jobs fetch key a s) =
                Inr \<lparr>content = [\<lparr>item_type = ascii ''text'', item_text = JStr t\<rparr>]\<rparr> \<and>
              t = apology_preamble @ http_error_message (status r) (statusText r) errorText \<and>
              sublist (show_nat (status r)) t \<and>
              sublist (statusText r) t \<and>
              sublist errorText t)"
proof -
  have t: "search_care_jobs_try fetch key a s =
      (Inl (new_Error (http_error_message (status r) (statusText r) errorText)),
       clearTimeout (next_timer s) (snd (setTimeout TIMEOUT_MS s)))"
    using assms(2,3) by (simp add: try_fulfilled [of fetch key a r s, OF assms(1)] Let_def)
  then have "fst (search_care_jobs fetch key a s) =
      Inr \<lparr>content = [\<lparr>item_type = ascii ''text'',
        item_text = JStr (apology_preamble
          @ http_error_message (status r) (statusText r) errorText)\<rparr>]\<rparr>"
    by (simp add: search_care_jobs_def new_Error_def)
  with t show ?thesis
    by (simp add: sublists_http_error_message)
qed

theorem http_error_is_reported_witness:
  "\<exists>t. fst (search_care_jobs
              (fetch_fulfilled (error_response 500 (ascii ''Internal Server Error'') (ascii ''server error'')))
              key0 args0 io0) =
          Inr \<lparr>content = [\<lparr>item_type = ascii ''text'', item_text = JStr t\<rparr>]\<rparr> \<and>
        sublist (ascii ''500'') t \<and> sublist (ascii ''server error'') t"
proof -
  let ?r = "error_response 500 (ascii ''Internal Server Error'') (ascii ''server error'')"
  have f: "fetch_fulfilled ?r openRouterUrl (request_options key0 (location args0)) = Fulfilled ?r"
    by (simp add: fetch_fulfilled_def)
  have "\<not> ok ?r" "read_text ?r = Inr (ascii ''server error'')" "status ?r = 500"
    by (simp_all add: error_response_def)
  with http_error_is_reported
    [where fetch = "fetch_fulfilled ?r" and key = key0 and a = args0 and r = ?r
       and errorText = "ascii ''server error''" and s = io0, OF f]
  show ?thesis
    by (auto simp: show_nat_500)
qed

text \<open>
  C5. The claim: a success status with a parsed body that lacks
  \<^verbatim>\<open>choices[0].message.content\<close> makes the handler log the body and answer with
  the generic extraction-failure message. The code at the body \<^verbatim>\<open>null\<close>
  (status 200): \<^verbatim>\<open>data.choices\<close> throws a \<^verbatim>\<open>TypeError\<close>, the body
  is not logged under the structure-error label, and the text of the result is the apology
  preamble followed by the message of the \<^verbatim>\<open>TypeError\<close>, which is not the
  extraction-failure message.
\<close>

theorem null_body_leaks_type_error:
  "ok (json_response JNull) \<and> read_json (json_response JNull) = Inr JNull \<and>
   search_care_jobs (fetch_fulfilled (json_response JNull)) key0 args0 io0 =
     (Inr \<lparr>content =
        [\<lparr>item_type = ascii ''text'',
          item_text = JStr (apology_preamble
            @ ascii ''Cannot read properties of null (reading '' @ [0x27] @ ascii ''choices''
            @ [0x27] @ ascii '')'')\<rparr>]\<rparr>,
      \<lparr>timers = [], next_timer = 1,
       trace = [SetTimeout 0 25000, ClearTimeout 0,
                ConsoleError search_error_label
                  (LoggedFault (cannot_read (ascii ''null'') (ascii ''choices'')))]\<rparr>) \<and>
   ascii ''Cannot read properties of null (reading '' @ [0x27] @ ascii ''choices''
     @ [0x27] @ ascii '')'' \<noteq> extraction_message"
proof -
  let ?F = "fetch_fulfilled (json_response JNull)"
  have f: "?F openRouterUrl (request_options key0 (location args0)) = Fulfilled (json_response JNull)"
    by (simp add: fetch_fulfilled_def)
  have a: "assistant_message JNull = Inl (cannot_read (ascii ''null'') (ascii ''choices''))"
    by (simp add: assistant_message_def)
  have t: "search_care_jobs_try ?F key0 args0 io0 =
      (Inl (cannot_read (ascii ''null'') (ascii ''choices'')),
       \<lparr>timers = [], next_timer = 1, trace = [SetTimeout 0 25000, ClearTimeout 0]\<rparr>)"
    unfolding try_fulfilled [of ?F key0 args0 _ io0, OF f]
    by (simp add: Let_def json_response_def a io0_def setTimeout_def clearTimeout_def TIMEOUT_MS_def)
  have m: "ascii ''Cannot read properties of null (reading '' @ [0x27] @ ascii ''choices''
     @ [0x27] @ ascii '')'' \<noteq> extraction_message"
    by (simp add: extraction_message_def ascii_def)
  have c: "cannot_read (ascii ''null'') (ascii ''choices'') =
      JsError (ascii ''TypeError'')
        (ascii ''Cannot read properties of null (reading '' @ [0x27] @ ascii ''choices''
           @ [0x27] @ ascii '')'')"
    by (simp add: cannot_read_def ascii_def)
  from catch_fault [OF t] m show ?thesis
    by (simp add: c console_error_def json_response_def)
qed

text \<open>
  C6. On every path of \<open>fetchWithTimeout\<close> (the request fulfilled, rejected, or
  aborted by the timer) the trace of the call starts with the \<^verbatim>\<open>setTimeout\<close>
  of the deadline timer and ends with the \<^verbatim>\<open>clearTimeout\<close> of the same timer,
  and that timer is not scheduled afterwards: the scheduled timers are those of before,
  without it. The same holds after any invocation of the handler.
\<close>

theorem deadline_timer_is_cleared:
  "(\<exists>mid. trace (snd (fetchWithTimeout fetch url opts timeout s)) =
      trace s @ [SetTimeout (next_timer s) timeout] @ mid @ [ClearTimeout (next_timer s)]) \<and>
   timers (snd (fetchWithTimeout fetch url opts timeout s)) = removeAll (next_timer s) (timers s) \<and>
   next_timer s \<notin> set (timers (snd (fetchWithTimeout fetch url opts timeout s))) \<and>
   timers (snd (search_care_jobs fetch key a s)) = removeAll (next_timer s) (timers s) \<and>
   next_timer s \<notin> set (timers (snd (search_care_jobs fetch key a s)))"
  using trace_after_fetchWithTimeout [of fetch url opts timeout s]
  by (simp add: timers_after_fetchWithTimeout timers_after_handler)

theorem deadline_timer_is_cleared_witness:
  "snd (fetchWithTimeout (fetch_deadline (ascii ''The user aborted a request.'')) openRouterUrl
          (request_options key0 (location args0)) TIMEOUT_MS io1) =
     \<lparr>timers = [3], next_timer = 6,
      trace = [SetTimeout 5 25000, TimerFired 5, AbortRequested, ClearTimeout 5]\<rparr> \<and>
   timers (snd (search_care_jobs (fetch_deadline (ascii ''The user aborted a request.'')) key0 args0 io1)) = [3] \<and>
   5 \<notin> set (timers (snd (search_care_jobs (fetch_deadline (ascii ''The user aborted a request.'')) key0 args0 io1)))"
proof -
  have "snd (fetchWithTimeout (fetch_deadline (ascii ''The user aborted a request.'')) openRouterUrl
          (request_options key0 (location args0)) TIMEOUT_MS io1) =
     \<lparr>timers = [3], next_timer = 6,
      trace = [SetTimeout 5 25000, TimerFired 5, AbortRequested, ClearTimeout 5]\<rparr>"
    by (simp add: fetchWithTimeout_cases fetch_deadline_def io1_def setTimeout_def
        clearTimeout_def timer_fires_def TIMEOUT_MS_def)
  with deadline_timer_is_cleared
    [of "fetch_deadline (ascii ''The user aborted a request.'')" openRouterUrl
        "request_options key0 (location args0)" TIMEOUT_MS io1 key0 args0]
  show ?thesis
    by (simp add: io1_def)
qed

text \<open>
  C7. A fault \<open>e\<close> of the transport that is not identified as a cancellation (it is not
  an \<^verbatim>\<open>Error\<close> named \<^verbatim>\<open>AbortError\<close>) leaves the wrapper
  unchanged, and the text of the tool result is the apology preamble followed by the message
  of \<open>e\<close>, verbatim (by the fixed text of the source when \<open>e\<close> is not an
  \<^verbatim>\<open>Error\<close> and has no message).
\<close>

theorem transport_fault_passes_through:
  "(fetch url opts = Rejected e \<and> \<not> is_abort e \<longrightarrow>
      fst (fetchWithTimeout fetch url opts timeout s) = Inl e) \<and>
   (fetch openRouterUrl (request_options key (location a)) = Rejected e \<and> \<not> is_abort e \<longrightarrow>
      fst (search_care_jobs fetch key a s) =
        Inr \<lparr>content = [\<lparr>item_type = ascii ''text'',
          item_text = JStr (apology_preamble
            @ (case e of JsError n msg \<Rightarrow> msg | NonError v \<Rightarrow> unknown_error_text))\<rparr>]\<rparr>)"
proof (intro conjI impI)
  assume "fetch url opts = Rejected e \<and> \<not> is_abort e"
  then show "fst (fetchWithTimeout fetch url opts timeout s) = Inl e"
    by (simp add: fetchWithTimeout_cases)
next
  assume h: "fetch openRouterUrl (request_options key (location a)) = Rejected e \<and> \<not> is_abort e"
  then have f: "fetch openRouterUrl (request_options key (location a)) = Rejected e"
    by simp
  have "search_care_jobs_try fetch key a s =
      (Inl e, clearTimeout (next_timer s) (snd (setTimeout TIMEOUT_MS s)))"
    using h by (simp add: try_rejected [of fetch key a e s, OF f])
  from catch_fault [OF this]
  show "fst (search_care_jobs fetch key a s) =
        Inr \<lparr>content = [\<lparr>item_type = ascii ''text'',
          item_text = JStr (apology_preamble
            @ (case e of JsError n msg \<Rightarrow> msg | NonError v \<Rightarrow> unknown_error_text))\<rparr>]\<rparr>"
    by simp
qed

theorem transport_fault_passes_through_witness:
  "fst (fetchWithTimeout (fetch_rejected (JsError (ascii ''FetchError'') (ascii ''getaddrinfo ENOTFOUND openrouter.ai'')))
          openRouterUrl (request_options key0 (location args0)) TIMEOUT_MS io0) =
     Inl (JsError (ascii ''FetchError'') (ascii ''getaddrinfo ENOTFOUND openrouter.ai'')) \<and>
   fst (search_care_jobs (fetch_rejected (JsError (ascii ''FetchError'') (ascii ''getaddrinfo ENOTFOUND openrouter.ai'')))
          key0 args0 io0) =
     Inr \<lparr>content = [\<lparr>item_type = ascii ''text'',
       item_text = JStr (apology_preamble @ ascii ''getaddrinfo ENOTFOUND openrouter.ai'')\<rparr>]\<rparr>"
proof -
  let ?e = "JsError (ascii ''FetchError'') (ascii ''getaddrinfo ENOTFOUND openrouter.ai'')"
  have f: "fetch_rejected ?e openRouterUrl (request_options key0 (location args0)) = Rejected ?e"
    by (simp add: fetch_rejected_def)
  have n: "\<not> is_abort ?e"
    by (simp add: is_abort_def ascii_def)
  from transport_fault_passes_through
    [where fetch = "fetch_rejected ?e" and url = openRouterUrl
       and opts = "request_options key0 (location args0)" and e = ?e and timeout = TIMEOUT_MS
       and key = key0 and a = args0 and s = io0] f n
  show ?thesis
    by simp
qed

text \<open>
  C8. If the credential is absent (\<^verbatim>\<open>openRouterApiKey\<close> is
  \<^verbatim>\<open>undefined\<close> or the empty string), the gate emits exactly one warning,
  which names \<^verbatim>\<open>OPENROUTER_API_KEY\<close> and \<^verbatim>\<open>search_care_jobs\<close>,
  and changes nothing else: the tool table is as before and no error is raised. If the
  credential is present (a non-empty string), the gate adds exactly one entry to the tool
  table, named \<^verbatim>\<open>search_care_jobs\<close>, and writes nothing to the console.
\<close>

theorem gate_warns_or_registers:
  "(key = None \<or> key = Some [] \<longrightarrow>
      registerSearchCareJobsTool fetch key w =
        w\<lparr>proc_io := (proc_io w)\<lparr>trace := trace (proc_io w) @ [ConsoleWarn missing_key_warning]\<rparr>\<rparr>) \<and>
   sublist (ascii ''OPENROUTER_API_KEY'') missing_key_warning \<and>
   sublist (ascii ''search_care_jobs'') missing_key_warning \<and>
   (\<forall>k. key = Some k \<and> k \<noteq> [] \<longrightarrow>
      registerSearchCareJobsTool fetch key w =
        w\<lparr>tool_table := tool_table w @
          [\<lparr>tool_name = ascii ''search_care_jobs'',
            tool_description = search_care_jobs_description,
            input_schema = [(ascii ''location'', ZString location_description)],
            tool_handler = search_care_jobs fetch key\<rparr>]\<rparr>)"
  by (auto simp: registerSearchCareJobsTool_def key_value_def console_warn_def server_tool_def
      sublists_missing_key_warning)

theorem gate_warns_or_registers_witness:
  "registerSearchCareJobsTool (fetch_deadline []) None world0 =
     \<lparr>process_env = Map.empty,
      proc_io = \<lparr>timers = [], next_timer = 0, trace = [ConsoleWarn missing_key_warning]\<rparr>,
      tool_table = []\<rparr> \<and>
   map tool_name (tool_table (registerSearchCareJobsTool (fetch_deadline []) key0 world0)) =
     [ascii ''search_care_jobs''] \<and>
   proc_io (registerSearchCareJobsTool (fetch_deadline []) key0 world0) = io0"
proof -
  have k: "key0 = Some (ascii ''sk-or-test'') \<and> ascii ''sk-or-test'' \<noteq> []"
    by (simp add: key0_def ascii_def)
  from gate_warns_or_registers [of None "fetch_deadline []" world0]
  have "registerSearchCareJobsTool (fetch_deadline []) None world0 =
     \<lparr>process_env = Map.empty,
      proc_io = \<lparr>timers = [], next_timer = 0, trace = [ConsoleWarn missing_key_warning]\<rparr>,
      tool_table = []\<rparr>"
    by (simp add: world0_def io0_def)
  moreover from gate_warns_or_registers [of key0 "fetch_deadline []" world0] k
  have "registerSearchCareJobsTool (fetch_deadline []) key0 world0 =
        world0\<lparr>tool_table := tool_table world0 @
          [\<lparr>tool_name = ascii ''search_care_jobs'',
            tool_description = search_care_jobs_description,
            input_schema = [(ascii ''location'', ZString location_description)],
            tool_handler = search_care_jobs (fetch_deadline []) key0\<rparr>]\<rparr>"
    by blast
  ultimately show ?thesis
    by (simp add: world0_def)
qed

text \<open>
  C9 (as amended). The credential is read from the process environment once, when the module
  is loaded (after \<^verbatim>\<open>dotenv.config()\<close>), not when the gate is called: the gate
  does not read the environment (changing the environment of the world it is called in
  changes neither its decision nor its effects), it registers the tool exactly when the
  value read at load time is truthy, and the handler it registers is bound over that value,
  which is the bearer token of every request it builds.
\<close>

theorem gate_uses_key_read_at_load:
  assumes "module_load dotenv_config w0 = (key, w1)"
  shows "key = dotenv_config (process_env w0) (ascii ''OPENROUTER_API_KEY'') \<and>
         registerSearchCareJobsTool fetch key (w\<lparr>process_env := env\<rparr>) =
           (registerSearchCareJobsTool fetch key w)\<lparr>process_env := env\<rparr> \<and>
         (tool_table (registerSearchCareJobsTool fetch key w) \<noteq> tool_table w) =
           truthy (key_value (dotenv_config (process_env w0) (ascii ''OPENROUTER_API_KEY''))) \<and>
         (truthy (key_value key) \<longrightarrow>
            tool_handler (last (tool_table (registerSearchCareJobsTool fetch key w))) =
              search_care_jobs fetch key) \<and>
         map_of (headers (request_options key loc)) (ascii ''Authorization'') =
           Some (ascii ''Bearer '' @ key_text key)"
proof -
  from assms have k: "key = dotenv_config (process_env w0) (ascii ''OPENROUTER_API_KEY'')"
    by (auto simp: module_load_def Let_def)
  have "registerSearchCareJobsTool fetch key (w\<lparr>process_env := env\<rparr>) =
           (registerSearchCareJobsTool fetch key w)\<lparr>process_env := env\<rparr>"
    by (simp add: registerSearchCareJobsTool_def server_tool_def)
  moreover have "(tool_table (registerSearchCareJobsTool fetch key w) \<noteq> tool_table w) =
      truthy (key_value key)"
    by (simp add: registerSearchCareJobsTool_def server_tool_def)
  moreover have "truthy (key_value key) \<longrightarrow>
            tool_handler (last (tool_table (registerSearchCareJobsTool fetch key w))) =
              search_care_jobs fetch key"
    by (simp add: registerSearchCareJobsTool_def server_tool_def)
  moreover have "map_of (headers (request_options key loc)) (ascii ''Authorization'') =
           Some (ascii ''Bearer '' @ key_text key)"
    by (simp add: request_options_def request_headers_def)
  ultimately show ?thesis
    using k by simp
qed

theorem gate_uses_key_read_at_load_witness:
  "fst (module_load dotenv_no_file world_with_key) = Some (ascii ''sk-or-test'') \<and>
   process_env world0 (ascii ''OPENROUTER_API_KEY'') = None \<and>
   map tool_name (tool_table
     (registerSearchCareJobsTool (fetch_deadline []) (fst (module_load dotenv_no_file world_with_key)) world0)) =
     [ascii ''search_care_jobs'']"
proof -
  have m: "module_load dotenv_no_file world_with_key = (Some (ascii ''sk-or-test''), world_with_key)"
    by (simp add: module_load_def dotenv_no_file_def world_with_key_def Let_def)
  have t: "truthy (key_value (Some (ascii ''sk-or-test'')))"
    by (simp add: key_value_def ascii_def)
  from gate_uses_key_read_at_load
    [where dotenv_config = dotenv_no_file and ?w0.0 = world_with_key and fetch = "fetch_deadline []"
       and w = world0, OF m] t
  have "tool_table (registerSearchCareJobsTool (fetch_deadline []) (Some (ascii ''sk-or-test'')) world0)
          \<noteq> tool_table world0"
    by (simp add: dotenv_no_file_def world_with_key_def)
  then show ?thesis
    by (simp add: m world0_def registerSearchCareJobsTool_def server_tool_def split: if_splits)
qed

text \<open>
  C9, as stated ("the registration decision reflects the configuration state as it
  stands when the gate is invoked") fails when the environment changes between module load
  and the call of the gate: loaded without the variable and called with the variable set,
  the gate warns and registers nothing.
\<close>

theorem gate_ignores_environment_at_call:
  "process_env world_with_key (ascii ''OPENROUTER_API_KEY'') = Some (ascii ''sk-or-test'') \<and>
   fst (module_load dotenv_no_file world0) = None \<and>
   registerSearchCareJobsTool (fetch_deadline []) (fst (module_load dotenv_no_file world0)) world_with_key =
     \<lparr>process_env = [ascii ''OPENROUTER_API_KEY'' \<mapsto> ascii ''sk-or-test''],
      proc_io = \<lparr>timers = [], next_timer = 0, trace = [ConsoleWarn missing_key_warning]\<rparr>,
      tool_table = []\<rparr>"
  by (simp add: module_load_def dotenv_no_file_def world0_def world_with_key_def Let_def
      registerSearchCareJobsTool_def key_value_def console_warn_def io0_def)

text \<open>
  C10. When the upstream answers with a success status and a body in which
  \<^verbatim>\<open>data.choices?.[0]?.message?.content\<close> evaluates to a falsy value \<open>v\<close>
  (the empty string, \<^verbatim>\<open>0\<close>, \<^verbatim>\<open>false\<close>, \<^verbatim>\<open>null\<close>;
  also \<^verbatim>\<open>undefined\<close>, when the field is missing), the handler takes the
  malformed-response path: it logs the body under the structure-error label, then the
  fault, and returns the apology with the extraction-failure message, not a result whose
  text is \<open>v\<close>.
\<close>

theorem falsy_content_is_malformed:
  assumes "fetch openRouterUrl (request_options key (location a)) = Fulfilled r"
    and "ok r"
    and "read_json r = Inr data"
    and "assistant_message data = Inr v"
    and "\<not> truthy v"
  shows "search_care_jobs fetch key a s =
     (Inr \<lparr>content =
        [\<lparr>item_type = ascii ''text'',
          item_text = JStr (apology_preamble @ extraction_message)\<rparr>]\<rparr>,
      console_error search_error_label (LoggedFault (new_Error extraction_message))
        (console_error structure_error_label (LoggedValue data)
           (clearTimeout (next_timer s) (snd (setTimeout TIMEOUT_MS s)))))"
proof -
  have "search_care_jobs_try fetch key a s =
      (Inl (new_Error extraction_message),
       console_error structure_error_label (LoggedValue data)
         (clearTimeout (next_timer s) (snd (setTimeout TIMEOUT_MS s))))"
    using assms(2-5) by (simp add: try_fulfilled [of fetch key a r s, OF assms(1)] Let_def)
  from catch_fault [OF this] show ?thesis
    by (simp add: new_Error_def)
qed

theorem falsy_content_is_malformed_witness:
  "search_care_jobs (fetch_fulfilled (json_response (completion_body (JStr [])))) key0 args0 io0 =
     (Inr \<lparr>content =
        [\<lparr>item_type = ascii ''text'',
          item_text = JStr (apology_preamble @ extraction_message)\<rparr>]\<rparr>,
      \<lparr>timers = [], next_timer = 1,
       trace = [SetTimeout 0 25000, ClearTimeout 0,
                ConsoleError structure_error_label (LoggedValue (completion_body (JStr []))),
                ConsoleError search_error_label (LoggedFault (new_Error extraction_message))]\<rparr>)"
proof -
  let ?r = "json_response (completion_body (JStr []))"
  have f: "fetch_fulfilled ?r openRouterUrl (request_options key0 (location args0)) = Fulfilled ?r"
    by (simp add: fetch_fulfilled_def)
  have h: "ok ?r" "read_json ?r = Inr (completion_body (JStr []))"
    "assistant_message (completion_body (JStr [])) = Inr (JStr [])" "\<not> truthy (JStr [])"
    by (simp_all add: json_response_def assistant_message_completion_body)
  from falsy_content_is_malformed
    [where fetch = "fetch_fulfilled ?r" and key = key0 and a = args0 and r = ?r
       and data = "completion_body (JStr [])" and v = "JStr []" and s = io0, OF f h]
  show ?thesis
    by (simp add: console_error_def clearTimeout_def setTimeout_def io0_def TIMEOUT_MS_def)
qed

section \<open>Further properties of the response mapping\<close>

text \<open>
  When the upstream answers with a success status and the chain
  \<^verbatim>\<open>data.choices?.[0]?.message?.content\<close> evaluates to
  \<^verbatim>\<open>undefined\<close> (the field is missing from a body that is not
  \<^verbatim>\<open>null\<close>), the handler logs the body under the structure-error label and
  returns the apology with the extraction-failure message.
\<close>

theorem missing_field_is_reported:
  assumes "fetch openRouterUrl (request_options key (location a)) = Fulfilled r"
    and "ok r"
    and "read_json r = Inr data"
    and "assistant_message data = Inr JUndefined"
  shows "search_care_jobs fetch key a s =
     (Inr \<lparr>content =
        [\<lparr>item_type = ascii ''text'',
          item_text = JStr (apology_preamble @ extraction_message)\<rparr>]\<rparr>,
      console_error search_error_label (LoggedFault (new_Error extraction_message))
        (console_error structure_error_label (LoggedValue data)
           (clearTimeout (next_timer s) (snd (setTimeout TIMEOUT_MS s)))))"
proof -
  have "search_care_jobs_try fetch key a s =
      (Inl (new_Error extraction_message),
       console_error structure_error_label (LoggedValue data)
         (clearTimeout (next_timer s) (snd (setTimeout TIMEOUT_MS s))))"
    using assms(2-4) by (simp add: try_fulfilled [of fetch key a r s, OF assms(1)] Let_def)
  from catch_fault [OF this] show ?thesis
    by (simp add: new_Error_def)
qed

theorem missing_field_is_reported_witness:
  "search_care_jobs (fetch_fulfilled (json_response (JObj []))) key0 args0 io0 =
     (Inr \<lparr>content =
        [\<lparr>item_type = ascii ''text'',
          item_text = JStr (apology_preamble @ extraction_message)\<rparr>]\<rparr>,
      \<lparr>timers = [], next_timer = 1,
       trace = [SetTimeout 0 25000, ClearTimeout 0,
                ConsoleError structure_error_label (LoggedValue (JObj [])),
                ConsoleError search_error_label (LoggedFault (new_Error extraction_message))]\<rparr>)"
proof -
  let ?r = "json_response (JObj [])"
  have f: "fetch_fulfilled ?r openRouterUrl (request_options key0 (location args0)) = Fulfilled ?r"
    by (simp add: fetch_fulfilled_def)
  have h: "ok ?r" "read_json ?r = Inr (JObj [])" "assistant_message (JObj []) = Inr JUndefined"
    by (simp_all add: json_response_def assistant_message_def)
  from missing_field_is_reported
    [where fetch = "fetch_fulfilled ?r" and key = key0 and a = args0 and r = ?r
       and data = "JObj []" and s = io0, OF f h]
  show ?thesis
    by (simp add: console_error_def clearTimeout_def setTimeout_def io0_def TIMEOUT_MS_def)
qed

text \<open>
  The chain \<^verbatim>\<open>data.choices?.[0]?.message?.content\<close> throws exactly when
  \<open>data\<close> itself is \<^verbatim>\<open>null\<close> or \<^verbatim>\<open>undefined\<close>; on every
  other value it yields a value.
\<close>

theorem optional_chain_throws_only_on_null:
  "(\<exists>e. assistant_message data = Inl e) = nullish data"
proof (cases "nullish data")
  case True
  then show ?thesis
    by (cases data) (simp_all add: assistant_message_def)
next
  case False
  from assistant_message_total [OF False] False show ?thesis by auto
qed

theorem optional_chain_throws_only_on_null_witness:
  "(\<exists>e. assistant_message JNull = Inl e) \<and> \<not> (\<exists>e. assistant_message (JObj []) = Inl e)"
  using optional_chain_throws_only_on_null [of JNull]
    optional_chain_throws_only_on_null [of "JObj []"]
  by simp

end
